theory Spec2Isabelle
  imports Complex_Main "HOL-Library.Multiset"
begin

section \<open>Python values used by the core\<close>

text \<open>
  Texts are \<open>string\<close>s, read as sequences of ASCII characters; Python floats are
  idealised as \<open>real\<close>s; every exception the modelled code can raise is a value of
  \<open>error\<close>, and a function that can raise returns \<open>error + 'a\<close>.
\<close>

datatype error =
    AttributeError
  | KeyError
  | ValueError
  | IndexError
  | ZeroDivisionError
  | FaissError

text \<open>The characters \<open>str.split()\<close> and \<open>str.strip()\<close> treat as white space.\<close>

definition is_space :: "char \<Rightarrow> bool" where
  "is_space c = (let n = (of_char c :: nat) in (9 \<le> n \<and> n \<le> 13) \<or> (28 \<le> n \<and> n \<le> 32))"

text \<open>
  \<open>str.lower()\<close> on ASCII letters: a capital letter (codes 65 to 90) gains 32, that
  is, its bit 5 is set.
\<close>

definition lower_char :: "char \<Rightarrow> char" where
  "lower_char c =
     (let n = (of_char c :: nat)
      in if 65 \<le> n \<and> n \<le> 90
         then (case c of Char b0 b1 b2 b3 b4 b5 b6 b7 \<Rightarrow> Char b0 b1 b2 b3 b4 True b6 b7)
         else c)"

definition lower :: "string \<Rightarrow> string" where
  "lower s = map lower_char s"

text \<open>\<open>text.split()\<close>: the maximal runs of characters that are not white space.\<close>

fun split_acc :: "string \<Rightarrow> string \<Rightarrow> string list" where
  "split_acc cur [] = (if cur = [] then [] else [cur])"
| "split_acc cur (c # cs) =
     (if is_space c then (if cur = [] then split_acc [] cs else cur # split_acc [] cs)
      else split_acc (cur @ [c]) cs)"

definition py_split :: "string \<Rightarrow> string list" where
  "py_split s = split_acc [] s"

text \<open>\<open>text.split(d)\<close> for a one-character separator: never the empty list.\<close>

fun split_on_acc :: "char \<Rightarrow> string \<Rightarrow> string \<Rightarrow> string list" where
  "split_on_acc d cur [] = [cur]"
| "split_on_acc d cur (c # cs) =
     (if c = d then cur # split_on_acc d [] cs else split_on_acc d (cur @ [c]) cs)"

definition py_split_on :: "char \<Rightarrow> string \<Rightarrow> string list" where
  "py_split_on d s = split_on_acc d [] s"

definition py_strip :: "string \<Rightarrow> string" where
  "py_strip s = rev (dropWhile is_space (rev (dropWhile is_space s)))"

fun py_join :: "string \<Rightarrow> string list \<Rightarrow> string" where
  "py_join sep [] = []"
| "py_join sep [x] = x"
| "py_join sep (x # y # ys) = x @ sep @ py_join sep (y # ys)"

text \<open>\<open>xs[i:j]\<close> with Python's treatment of negative and out-of-range bounds.\<close>

definition slice_bound :: "nat \<Rightarrow> int \<Rightarrow> nat" where
  "slice_bound n k = (if k < 0 then nat (max 0 (int n + k)) else min n (nat k))"

definition py_slice :: "'a list \<Rightarrow> int \<Rightarrow> int \<Rightarrow> 'a list" where
  "py_slice xs i j =
     (let lo = slice_bound (length xs) i; hi = slice_bound (length xs) j
      in take (hi - lo) (drop lo xs))"

text \<open>\<open>xs[i]\<close>: a negative index counts from the end, anything out of range raises.\<close>

definition py_index :: "'a list \<Rightarrow> int \<Rightarrow> error + 'a" where
  "py_index xs i =
     (if 0 \<le> i \<and> i < int (length xs) then Inr (xs ! nat i)
      else if i < 0 \<and> - int (length xs) \<le> i then Inr (xs ! nat (int (length xs) + i))
      else Inl IndexError)"

text \<open>
  \<open>collections.Counter\<close>: the distinct items in the order of their first occurrence,
  each with its number of occurrences.
\<close>

fun counter_add :: "'a \<Rightarrow> ('a \<times> nat) list \<Rightarrow> ('a \<times> nat) list" where
  "counter_add x [] = [(x, 1)]"
| "counter_add x ((y, c) # rest) =
     (if x = y then (y, c + 1) # rest else (y, c) # counter_add x rest)"

definition Counter :: "'a list \<Rightarrow> ('a \<times> nat) list" where
  "Counter xs = foldl (\<lambda>cnt x. counter_add x cnt) [] xs"

section \<open>EntropyEvaluator (openkimi/core/entropy.py)\<close>

text \<open>
  The loop shared by the word, n-gram and structural measures: starting from 0, every
  frequency \<open>freq\<close> subtracts \<open>p * log2 p\<close> with \<open>p = freq / total\<close>. The division is
  only evaluated inside the loop, so an empty frequency table divides nothing.
\<close>

definition entropy_loop :: "nat list \<Rightarrow> nat \<Rightarrow> real" where
  "entropy_loop freqs n_total =
     foldl (\<lambda>entropy freq. let p = real freq / real n_total in entropy - p * log 2 p) 0 freqs"

definition calculate_word_entropy :: "string \<Rightarrow> real" where
  "calculate_word_entropy text =
     (let words = py_split (lower text);
          word_freq = Counter words;
          total_words = length words
      in entropy_loop (map snd word_freq) total_words)"

definition calculate_ngram_entropy :: "string \<Rightarrow> int \<Rightarrow> real" where
  "calculate_ngram_entropy text n =
     (let words = py_split (lower text);
          ngrams = map (\<lambda>i. py_slice words (int i) (int i + n))
                       [0 ..< nat (int (length words) - n + 1)];
          ngram_freq = Counter ngrams;
          total_ngrams = length ngrams
      in entropy_loop (map snd ngram_freq) total_ngrams)"

definition calculate_structural_entropy :: "string \<Rightarrow> real" where
  "calculate_structural_entropy text =
     (let sentences = filter (\<lambda>s. s \<noteq> []) (map py_strip (py_split_on (CHR ''.'') text))
      in if sentences = [] then 0
         else
           let lengths = map (\<lambda>s. length (py_split s)) sentences;
               length_freq = Counter lengths;
               total_sentences = length sentences;
               length_entropy = entropy_loop (map snd length_freq) total_sentences;
               punctuation = filter (\<lambda>c. c \<in> set ''.,!?;:'') text;
               punct_freq = Counter punctuation;
               total_punct = length punctuation;
               punct_entropy =
                 (if 0 < total_punct then entropy_loop (map snd punct_freq) total_punct else 0)
           in 0.7 * length_entropy + 0.3 * punct_entropy)"

text \<open>
  The semantic measure hands its texts to scikit-learn's \<open>TfidfVectorizer\<close>, which is
  not part of the repository. Two facts of that library are modelled. Its default
  analyser lower-cases a document and takes as tokens the maximal runs of two or more
  word characters; and \<open>fit_transform\<close> raises \<open>ValueError\<close> (empty vocabulary) when
  no document yields a token. The floating-point value computed from a non-empty
  vocabulary (cosine similarities, their normalisation, the mean entropy) is a
  parameter of the evaluator, \<open>tfidf_entropy\<close>.
\<close>

definition is_word_char :: "char \<Rightarrow> bool" where
  "is_word_char c =
     (let n = (of_char c :: nat)
      in (48 \<le> n \<and> n \<le> 57) \<or> (65 \<le> n \<and> n \<le> 90) \<or> n = 95 \<or> (97 \<le> n \<and> n \<le> 122))"

fun word_runs_acc :: "string \<Rightarrow> string \<Rightarrow> string list" where
  "word_runs_acc cur [] = [cur]"
| "word_runs_acc cur (c # cs) =
     (if is_word_char c then word_runs_acc (cur @ [c]) cs else cur # word_runs_acc [] cs)"

definition sk_tokens :: "string \<Rightarrow> string list" where
  "sk_tokens doc = filter (\<lambda>t. 2 \<le> length t) (word_runs_acc [] (lower doc))"

definition vocabulary_empty :: "string list \<Rightarrow> bool" where
  "vocabulary_empty texts = list_all (\<lambda>doc. sk_tokens doc = []) texts"

record EntropyEvaluator =
  use_tfidf :: bool
  tfidf_entropy :: "string list \<Rightarrow> real"

definition calculate_semantic_entropy :: "EntropyEvaluator \<Rightarrow> string list \<Rightarrow> error + real" where
  "calculate_semantic_entropy ev texts =
     (if \<not> use_tfidf ev then Inr 0
      else if texts = [] then Inr 0
      else if vocabulary_empty texts then Inl ValueError
      else Inr (tfidf_entropy ev texts))"

record entropy_profile =
  word_entropy :: real
  ngram_entropy :: real
  semantic_entropy :: real
  structural_entropy :: real
  weighted_entropy :: real

definition default_weights :: "string \<rightharpoonup> real" where
  "default_weights =
     [''word'' \<mapsto> 0.3, ''ngram'' \<mapsto> 0.2, ''semantic'' \<mapsto> 0.3, ''structural'' \<mapsto> 0.2]"

text \<open>
  \<open>weights or default_weights\<close> keeps the caller's dictionary unless it is \<open>None\<close> or
  empty; the four subscriptions \<open>weights['word']\<close>, ... raise \<open>KeyError\<close> on a missing
  key. The semantic measure is computed before the weights are read.
\<close>

definition subscript :: "(string \<rightharpoonup> real) \<Rightarrow> string \<Rightarrow> error + real" where
  "subscript d k = (case d k of None \<Rightarrow> Inl KeyError | Some v \<Rightarrow> Inr v)"

definition evaluate_text ::
  "EntropyEvaluator \<Rightarrow> string \<Rightarrow> string list option \<Rightarrow> (string \<rightharpoonup> real) option
     \<Rightarrow> error + entropy_profile" where
  "evaluate_text ev text texts weights =
     (let weights' = (case weights of
                        None \<Rightarrow> default_weights
                      | Some w \<Rightarrow> if w = Map.empty then default_weights else w);
          word_ent = calculate_word_entropy text;
          ngram_ent = calculate_ngram_entropy text 2
      in case calculate_semantic_entropy ev
                ([text] @ (case texts of None \<Rightarrow> [] | Some ts \<Rightarrow> ts)) of
           Inl e \<Rightarrow> Inl e
         | Inr semantic_ent \<Rightarrow>
             let structural_ent = calculate_structural_entropy text
             in (case subscript weights' ''word'' of Inl e \<Rightarrow> Inl e | Inr w_word \<Rightarrow>
                (case subscript weights' ''ngram'' of Inl e \<Rightarrow> Inl e | Inr w_ngram \<Rightarrow>
                (case subscript weights' ''semantic'' of Inl e \<Rightarrow> Inl e | Inr w_semantic \<Rightarrow>
                (case subscript weights' ''structural'' of Inl e \<Rightarrow> Inl e | Inr w_structural \<Rightarrow>
                   Inr \<lparr> word_entropy = word_ent,
                         ngram_entropy = ngram_ent,
                         semantic_entropy = semantic_ent,
                         structural_entropy = structural_ent,
                         weighted_entropy =
                           w_word * word_ent + w_ngram * ngram_ent
                           + w_semantic * semantic_ent
                           + w_structural * structural_ent \<rparr>)))))"

section \<open>TextProcessor (openkimi/core/processor.py)\<close>

record TextProcessor =
  batch_size :: int
  entropy_threshold :: real
  overlap_size :: int
  entropy_method :: string
  entropy_evaluator :: EntropyEvaluator

text \<open>The constructor's defaults, with the batch size the caller gives.\<close>

definition TextProcessor_init :: "int \<Rightarrow> EntropyEvaluator \<Rightarrow> TextProcessor" where
  "TextProcessor_init bs ev =
     \<lparr> batch_size = bs, entropy_threshold = 2.5, overlap_size = 50,
       entropy_method = ''weighted'', entropy_evaluator = ev \<rparr>"

definition ends_sentence :: "string \<Rightarrow> bool" where
  "ends_sentence word = (word \<noteq> [] \<and> last word \<in> set ''.!?'')"

text \<open>
  The \<open>while start_idx < len(words)\<close> loop of \<open>split_into_batches\<close>. The inner
  \<open>for i in range(min(start_idx + batch_size, len(words)) - 1, start_idx, -1)\<close> looks
  for the last sentence end inside the window. The loop has no bound of its own, so it
  is a partial function: \<open>None\<close> is a call that never returns.
\<close>

partial_function (option) split_loop ::
  "int \<Rightarrow> int \<Rightarrow> string list \<Rightarrow> bool list \<Rightarrow> nat \<Rightarrow> string list \<Rightarrow> string list option" where
  "split_loop bsize overlap words ends start_idx batches =
     (if start_idx < length words then
        let limit = min (int start_idx + bsize) (int (length words));
            end_idx = (case find (\<lambda>i. i < length ends \<and> ends ! i)
                                 (rev [start_idx + 1 ..< nat limit]) of
                         Some i \<Rightarrow> int i + 1
                       | None \<Rightarrow> limit)
        in split_loop bsize overlap words ends
             (nat (max 0 (end_idx - overlap)))
             (batches @ [py_join '' '' (py_slice words (int start_idx) end_idx)])
      else Some batches)"

text \<open>
  The branch without sentence boundaries walks \<open>range(0, len(words), step)\<close> with
  \<open>step = batch_size - overlap_size\<close>: a zero step raises, a negative one is empty.
\<close>

definition range_step :: "nat \<Rightarrow> int \<Rightarrow> error + nat list" where
  "range_step n step =
     (if step = 0 then Inl ValueError
      else if step < 0 then Inr []
      else Inr (map (\<lambda>k. k * nat step) [0 ..< (n + nat step - 1) div nat step]))"

definition split_into_batches ::
  "TextProcessor \<Rightarrow> string \<Rightarrow> bool \<Rightarrow> (error + string list) option" where
  "split_into_batches p text by_sentence =
     (let words = py_split text
      in if by_sentence then
           map_option Inr
             (split_loop (batch_size p) (overlap_size p) words (map ends_sentence words) 0 [])
         else
           Some (case range_step (length words) (batch_size p - overlap_size p) of
                   Inl e \<Rightarrow> Inl e
                 | Inr starts \<Rightarrow>
                     Inr (map (\<lambda>i. py_join '' ''
                                 (py_slice words (int i) (int i + batch_size p))) starts)))"

definition calculate_entropy ::
  "TextProcessor \<Rightarrow> string \<Rightarrow> string list option \<Rightarrow> error + entropy_profile" where
  "calculate_entropy p text context_texts =
     evaluate_text (entropy_evaluator p) text context_texts None"

definition select_entropy :: "TextProcessor \<Rightarrow> entropy_profile \<Rightarrow> real" where
  "select_entropy p entropy_results =
     (if entropy_method p = ''word'' then word_entropy entropy_results
      else if entropy_method p = ''ngram'' then ngram_entropy entropy_results
      else if entropy_method p = ''semantic'' then semantic_entropy entropy_results
      else if entropy_method p = ''structural'' then structural_entropy entropy_results
      else weighted_entropy entropy_results)"

text \<open>The first loop of \<open>classify_by_entropy\<close>: one score per batch, or the first error.\<close>

fun batch_entropies ::
  "TextProcessor \<Rightarrow> string list option \<Rightarrow> string list \<Rightarrow> error + real list" where
  "batch_entropies p context_texts [] = Inr []"
| "batch_entropies p context_texts (batch # rest) =
     (case calculate_entropy p batch context_texts of
        Inl e \<Rightarrow> Inl e
      | Inr entropy_results \<Rightarrow>
          (case batch_entropies p context_texts rest of
             Inl e \<Rightarrow> Inl e
           | Inr entropies \<Rightarrow> Inr (select_entropy p entropy_results # entropies)))"

text \<open>The second loop: each \<open>(batch, entropy)\<close> pair is appended to one of two lists.\<close>

fun classify_loop ::
  "real \<Rightarrow> (string \<times> real) list \<Rightarrow> string list \<Rightarrow> string list \<Rightarrow> string list \<times> string list" where
  "classify_loop threshold [] useful_batches less_useful_batches =
     (useful_batches, less_useful_batches)"
| "classify_loop threshold ((batch, entropy) # rest) useful_batches less_useful_batches =
     (if entropy \<ge> threshold
      then classify_loop threshold rest (useful_batches @ [batch]) less_useful_batches
      else classify_loop threshold rest useful_batches (less_useful_batches @ [batch]))"

definition classify_by_entropy ::
  "TextProcessor \<Rightarrow> string list \<Rightarrow> real option \<Rightarrow> bool
     \<Rightarrow> error + (string list \<times> string list)" where
  "classify_by_entropy p batches threshold context_aware =
     (let threshold' = (case threshold of None \<Rightarrow> entropy_threshold p | Some t \<Rightarrow> t);
          context_texts = (if context_aware then Some batches else None)
      in case batch_entropies p context_texts batches of
           Inl e \<Rightarrow> Inl e
         | Inr entropies \<Rightarrow> Inr (classify_loop threshold' (zip batches entropies) [] []))"

section \<open>RAGManager (openkimi/core/rag.py)\<close>

text \<open>
  The vector index is \<open>faiss.IndexFlatL2\<close>, an external library. What the store uses of
  it is modelled: an index has a dimension and the vectors added so far; \<open>add\<close> rejects
  a vector of another dimension; \<open>search\<close> with \<open>k\<close> neighbours rejects \<open>k \<le> 0\<close> and a
  query of another dimension, and otherwise returns exactly \<open>k\<close> labels, the positions
  of the stored vectors by ascending squared Euclidean distance (equal distances by
  ascending position), filled up with \<open>-1\<close> when the index holds fewer than \<open>k\<close>
  vectors.
\<close>

record faiss_index =
  idx_dim :: nat
  idx_vecs :: "real list list"

definition IndexFlatL2 :: "nat \<Rightarrow> faiss_index" where
  "IndexFlatL2 d = \<lparr> idx_dim = d, idx_vecs = [] \<rparr>"

definition faiss_add :: "faiss_index \<Rightarrow> real list list \<Rightarrow> error + faiss_index" where
  "faiss_add idx vs =
     (if list_all (\<lambda>v. length v = idx_dim idx) vs
      then Inr (idx \<lparr> idx_vecs := idx_vecs idx @ vs \<rparr>)
      else Inl FaissError)"

definition l2_sq :: "real list \<Rightarrow> real list \<Rightarrow> real" where
  "l2_sq q v = sum_list (map (\<lambda>(a, b). (a - b) * (a - b)) (zip q v))"

definition faiss_search :: "faiss_index \<Rightarrow> real list \<Rightarrow> int \<Rightarrow> error + int list" where
  "faiss_search idx q k =
     (if k \<le> 0 \<or> length q \<noteq> idx_dim idx then Inl FaissError
      else
        let n = length (idx_vecs idx);
            nearest = sort_key (\<lambda>i. l2_sq q (idx_vecs idx ! i)) [0 ..< n]
        in Inr (map int (take (nat k) nearest) @ replicate (nat k - n) (- 1)))"

text \<open>
  A manager holds its collaborators (the language model's \<open>generate\<close>, the embedding
  model's \<open>encode\<close>, the summary prompt as the function that fills the template in) and
  its state: the summary list \<open>texts\<close>, the embedding list and the index. The index
  attribute exists only when \<open>use_faiss\<close> is set.
\<close>

record RAGManager =
  model :: "string \<Rightarrow> string"
  embedding_model :: "string \<Rightarrow> real list"
  summarize_prompt_template :: "string \<Rightarrow> string"
  use_faiss :: bool
  similarity_threshold :: real
  embeddings :: "real list list"
  texts :: "string list"
  index :: "faiss_index option"

definition RAGManager_init ::
  "(string \<Rightarrow> string) \<Rightarrow> (string \<Rightarrow> real list) \<Rightarrow> (string \<Rightarrow> string) \<Rightarrow> nat \<Rightarrow> bool \<Rightarrow> real
     \<Rightarrow> RAGManager" where
  "RAGManager_init llm embedder template vector_dimension faiss threshold =
     \<lparr> model = llm, embedding_model = embedder, summarize_prompt_template = template,
       use_faiss = faiss, similarity_threshold = threshold,
       embeddings = [], texts = [],
       index = (if faiss then Some (IndexFlatL2 vector_dimension) else None) \<rparr>"

definition summarize_text :: "RAGManager \<Rightarrow> string \<Rightarrow> string" where
  "summarize_text r text = py_strip (model r (summarize_prompt_template r text))"

text \<open>
  \<open>store_text\<close> returns the summary and the manager after the call. An error of
  \<open>index.add\<close> is caught and logged: the index stays as it was.
\<close>

definition store_text :: "RAGManager \<Rightarrow> string \<Rightarrow> string \<times> RAGManager" where
  "store_text r text =
     (let summary = summarize_text r text
      in if summary \<in> set (texts r) then (summary, r)
         else
           let r1 = r \<lparr> texts := texts r @ [summary] \<rparr>;
               summary_embedding = embedding_model r1 summary;
               r2 = r1 \<lparr> embeddings := embeddings r1 @ [summary_embedding] \<rparr>
           in if use_faiss r2 then
                (case index r2 of
                   None \<Rightarrow> (summary, r2)
                 | Some idx \<Rightarrow>
                     let r3 = r2 \<lparr> texts := texts r2 @ [summary] \<rparr>
                     in (case faiss_add idx [summary_embedding] of
                           Inl e \<Rightarrow> (summary, r3)
                         | Inr idx' \<Rightarrow> (summary, r3 \<lparr> index := Some idx' \<rparr>)))
              else (summary, r2))"

text \<open>
  The loop of \<open>batch_store\<close> over the texts, with its three accumulators
  \<open>summaries\<close>, \<open>new_vectors\<close> and \<open>new_summaries\<close>.
\<close>

fun batch_store_loop ::
  "RAGManager \<Rightarrow> string list \<Rightarrow> string list \<Rightarrow> real list list \<Rightarrow> string list
     \<Rightarrow> RAGManager \<times> string list \<times> real list list \<times> string list" where
  "batch_store_loop r [] summaries new_vectors new_summaries =
     (r, summaries, new_vectors, new_summaries)"
| "batch_store_loop r (text # rest) summaries new_vectors new_summaries =
     (let summary = summarize_text r text
      in if summary \<in> set (texts r)
         then batch_store_loop r rest (summaries @ [summary]) new_vectors new_summaries
         else
           let r1 = r \<lparr> texts := texts r @ [summary] \<rparr>;
               summary_embedding = embedding_model r1 summary;
               r2 = r1 \<lparr> embeddings := embeddings r1 @ [summary_embedding] \<rparr>
           in batch_store_loop r2 rest (summaries @ [summary])
                (new_vectors @ [summary_embedding]) (new_summaries @ [summary]))"

definition batch_store :: "RAGManager \<Rightarrow> string list \<Rightarrow> string list \<times> RAGManager" where
  "batch_store r txts =
     (if txts = [] then ([], r)
      else
        case batch_store_loop r txts [] [] [] of
          (r1, summaries, new_vectors, new_summaries) \<Rightarrow>
            if use_faiss r1 \<and> new_vectors \<noteq> [] then
              (case index r1 of
                 None \<Rightarrow> (summaries, r1)
               | Some idx \<Rightarrow>
                   let r2 = r1 \<lparr> texts := texts r1 @ new_summaries \<rparr>
                   in (case faiss_add idx new_vectors of
                         Inl e \<Rightarrow> (summaries, r2)
                       | Inr idx' \<Rightarrow> (summaries, r2 \<lparr> index := Some idx' \<rparr>)))
            else (summaries, r1))"

text \<open>
  The loop of \<open>retrieve\<close> over the labels of the search: a label below \<open>len(texts)\<close>
  is used as a subscript of the summary list (\<open>-1\<close> reads its last entry).
\<close>

fun collect_results :: "string list \<Rightarrow> int list \<Rightarrow> string list \<Rightarrow> error + string list" where
  "collect_results txts [] results = Inr results"
| "collect_results txts (idx # rest) results =
     (if idx < int (length txts) then
        (case py_index txts idx of
           Inl e \<Rightarrow> Inl e
         | Inr summary \<Rightarrow>
             if summary \<in> set txts then collect_results txts rest (results @ [summary])
             else collect_results txts rest results)
      else collect_results txts rest results)"

text \<open>
  The fallback of \<open>retrieve\<close>: scikit-learn's \<open>cosine_similarity\<close> (a vector of norm 0
  has similarity 0 with everything; vectors of different dimensions raise), then
  \<open>argsort\<close>, reversed, cut to \<open>top_k\<close> with a slice, and filtered by \<open>> 0\<close>.
\<close>

definition dot :: "real list \<Rightarrow> real list \<Rightarrow> real" where
  "dot u v = sum_list (map (\<lambda>(a, b). a * b) (zip u v))"

definition cosine_similarity :: "real list \<Rightarrow> real list \<Rightarrow> error + real" where
  "cosine_similarity u v =
     (if length u \<noteq> length v then Inl ValueError
      else if dot u u = 0 \<or> dot v v = 0 then Inr 0
      else Inr (dot u v / (sqrt (dot u u) * sqrt (dot v v))))"

fun cosine_similarities :: "real list \<Rightarrow> real list list \<Rightarrow> error + real list" where
  "cosine_similarities q [] = Inr []"
| "cosine_similarities q (v # vs) =
     (case cosine_similarity q v of
        Inl e \<Rightarrow> Inl e
      | Inr s \<Rightarrow> (case cosine_similarities q vs of
                    Inl e \<Rightarrow> Inl e
                  | Inr ss \<Rightarrow> Inr (s # ss)))"

fun subscripts :: "string list \<Rightarrow> nat list \<Rightarrow> error + string list" where
  "subscripts txts [] = Inr []"
| "subscripts txts (i # is) =
     (case py_index txts (int i) of
        Inl e \<Rightarrow> Inl e
      | Inr t \<Rightarrow> (case subscripts txts is of
                    Inl e \<Rightarrow> Inl e
                  | Inr ts \<Rightarrow> Inr (t # ts)))"

definition sklearn_retrieve :: "RAGManager \<Rightarrow> real list \<Rightarrow> int \<Rightarrow> error + string list" where
  "sklearn_retrieve r query_embedding top_k =
     (case cosine_similarities query_embedding (embeddings r) of
        Inl e \<Rightarrow> Inl e
      | Inr similarities \<Rightarrow>
          let argsort = sort_key (\<lambda>i. similarities ! i) [0 ..< length similarities];
              top_k_indices = py_slice (rev argsort) 0 top_k
          in subscripts (texts r) (filter (\<lambda>i. similarities ! i > 0) top_k_indices))"

definition retrieve :: "RAGManager \<Rightarrow> string \<Rightarrow> int \<Rightarrow> error + string list" where
  "retrieve r query top_k =
     (if texts r = [] then Inr []
      else if embeddings r = [] then Inr []
      else
        let query_embedding = embedding_model r query
        in if use_faiss r then
             (case index r of
                None \<Rightarrow> sklearn_retrieve r query_embedding top_k
              | Some idx \<Rightarrow>
                  (case faiss_search idx query_embedding (min top_k (int (length (texts r)))) of
                     Inl e \<Rightarrow> sklearn_retrieve r query_embedding top_k
                   | Inr labels \<Rightarrow>
                       (case collect_results (texts r) labels [] of
                          Inl e \<Rightarrow> sklearn_retrieve r query_embedding top_k
                        | Inr results \<Rightarrow> Inr results)))
           else sklearn_retrieve r query_embedding top_k)"

section \<open>FrameworkGenerator (openkimi/core/framework.py)\<close>

text \<open>
  The constructor sets the model and the two strategy tables, and nothing else. The
  attribute \<open>current_query\<close> that the relevance strategy reads is therefore absent
  (\<open>None\<close>) on a generator as constructed; no code of the repository assigns it.
\<close>

record FrameworkGenerator =
  current_query :: "string option"

definition FrameworkGenerator_init :: FrameworkGenerator where
  "FrameworkGenerator_init = \<lparr> current_query = None \<rparr>"

definition calculate_relevance :: "string \<Rightarrow> string \<Rightarrow> error + real" where
  "calculate_relevance text query =
     (let query_words = remdups (py_split (lower query));
          text_words = remdups (py_split (lower text))
      in if query_words = [] then Inl ZeroDivisionError
         else Inr (real (length (filter (\<lambda>w. w \<in> set text_words) query_words))
                   / real (length query_words)))"

text \<open>
  The comprehension evaluates \<open>self.current_query\<close> for each context, the first time for
  \<open>useful_context\<close>, which is always in the pool.
\<close>

fun context_relevance ::
  "FrameworkGenerator \<Rightarrow> string list \<Rightarrow> error + (string \<times> real) list" where
  "context_relevance fg [] = Inr []"
| "context_relevance fg (ctx # rest) =
     (case current_query fg of
        None \<Rightarrow> Inl AttributeError
      | Some query \<Rightarrow>
          (case calculate_relevance ctx query of
             Inl e \<Rightarrow> Inl e
           | Inr rel \<Rightarrow> (case context_relevance fg rest of
                           Inl e \<Rightarrow> Inl e
                         | Inr rels \<Rightarrow> Inr ((ctx, rel) # rels))))"

text \<open>\<open>sort(key=..., reverse=True)\<close>: descending, equal keys in their original order.\<close>

definition sort_reverse :: "('a \<Rightarrow> real) \<Rightarrow> 'a list \<Rightarrow> 'a list" where
  "sort_reverse f xs = rev (sort_key f (rev xs))"

definition relevance_based_sampling ::
  "FrameworkGenerator \<Rightarrow> string \<Rightarrow> string list \<Rightarrow> int \<Rightarrow> error + string list" where
  "relevance_based_sampling fg useful_context rag_context num_samples =
     (let all_contexts = [useful_context] @ rag_context
      in case context_relevance fg all_contexts of
           Inl e \<Rightarrow> Inl e
         | Inr rels \<Rightarrow> Inr (map fst (py_slice (sort_reverse snd rels) 0 num_samples)))"

section \<open>KimiEngine: the compression loop (openkimi/core/engine.py)\<close>

text \<open>
  A tokenizer has \<open>encode(text, max_length, truncation)\<close> and \<open>decode\<close>.
  \<open>SimpleTokenizer\<close> is the repository's own: one token per character.
\<close>

record 'tok tokenizer =
  encode :: "string \<Rightarrow> int option \<Rightarrow> bool \<Rightarrow> 'tok list"
  decode :: "'tok list \<Rightarrow> string"

definition SimpleTokenizer :: "char tokenizer" where
  "SimpleTokenizer =
     \<lparr> encode = (\<lambda>text max_length truncation.
                    case max_length of
                      None \<Rightarrow> text
                    | Some m \<Rightarrow>
                        if m \<noteq> 0 \<and> truncation \<and> int (length text) > m
                        then py_slice text 0 m else text),
       decode = (\<lambda>tokens. tokens) \<rparr>"

definition count_tokens :: "'tok tokenizer \<Rightarrow> string \<Rightarrow> nat" where
  "count_tokens tk text = (if text = [] then 0 else length (encode tk text None False))"

text \<open>
  The engine, as far as the compression loop reads it: the tokenizer, the processor,
  the configured entropy threshold (\<open>None\<close> when the configuration has none, then 3.0),
  and what the constructor of the temporary \<open>RAGManager\<close> is given.
\<close>

record 'tok KimiEngine =
  tokenizer :: "'tok tokenizer"
  processor :: TextProcessor
  config_entropy_threshold :: "real option"
  llm_interface :: "string \<Rightarrow> string"
  rag_embedding_model :: "string \<Rightarrow> real list"
  rag_prompt_template :: "string \<Rightarrow> string"
  rag_vector_dimension :: nat
  rag_use_faiss :: bool

text \<open>
  \<open>temp_rag.rag_store\<close>: the class \<open>RAGManager\<close> defines no attribute \<open>rag_store\<close> (its
  state is \<open>texts\<close>, \<open>embeddings\<close> and \<open>index\<close>), so the attribute access raises.
\<close>

definition rag_store_keys :: "RAGManager \<Rightarrow> error + string list" where
  "rag_store_keys r = Inl AttributeError"

partial_function (option) recursive_rag_compress ::
  "'tok KimiEngine \<Rightarrow> string \<Rightarrow> int \<Rightarrow> (error + string) option" where
  "recursive_rag_compress eng text target_token_limit =
     (let current_tokens = count_tokens (tokenizer eng) text
      in if int current_tokens \<le> target_token_limit then Some (Inr text)
         else
           let temp_rag = RAGManager_init (llm_interface eng) (rag_embedding_model eng)
                            (rag_prompt_template eng) (rag_vector_dimension eng)
                            (rag_use_faiss eng) 0.7
           in Option.bind (split_into_batches (processor eng) text True) (\<lambda>split.
                case split of
                  Inl e \<Rightarrow> Some (Inl e)
                | Inr batches \<Rightarrow>
                    (case classify_by_entropy (processor eng) batches
                            (Some (case config_entropy_threshold eng of
                                     None \<Rightarrow> 3.0 | Some t \<Rightarrow> t)) True of
                       Inl e \<Rightarrow> Some (Inl e)
                     | Inr (useful_batches, less_useful_batches) \<Rightarrow>
                         (case batch_store temp_rag less_useful_batches of
                            (stored, temp_rag') \<Rightarrow>
                              (case rag_store_keys temp_rag' of
                                 Inl e \<Rightarrow> Some (Inl e)
                               | Inr keys \<Rightarrow>
                                   let compressed_text_parts = useful_batches @ keys;
                                       compressed_text =
                                         py_join [CHR 0x0A] compressed_text_parts;
                                       new_tokens =
                                         count_tokens (tokenizer eng) compressed_text
                                   in if int new_tokens > target_token_limit then
                                        (if real (length compressed_text)
                                              < real (length text) * 0.9
                                         then recursive_rag_compress eng compressed_text
                                                target_token_limit
                                         else
                                           let encoded =
                                                 encode (tokenizer eng) compressed_text
                                                   (Some target_token_limit) True
                                           in Some (Inr (decode (tokenizer eng) encoded)))
                                      else Some (Inr compressed_text))))))"

section \<open>Concrete collaborators\<close>

text \<open>
  The language model, the embedding model and the TF-IDF value are collaborators of the
  core. To run the model at explicit inputs they are fixed here to the simplest
  ones: a language model that answers with its prompt, a prompt template that is the
  text itself, an embedding of dimension 1 (the length of the text), and a TF-IDF
  entropy that is 0. The last is a stand-in for the library's floating-point value,
  which is not 0 in general; the general statements below hold for every evaluator,
  and only the evaluations at explicit inputs use the stand-in.
\<close>

definition echo_llm :: "string \<Rightarrow> string" where
  "echo_llm prompt = prompt"

definition plain_template :: "string \<Rightarrow> string" where
  "plain_template text = text"

definition length_embedding :: "string \<Rightarrow> real list" where
  "length_embedding text = [real (length text)]"

definition zero_tfidf :: "string list \<Rightarrow> real" where
  "zero_tfidf docs = 0"

definition EntropyEvaluator_init :: EntropyEvaluator where
  "EntropyEvaluator_init = \<lparr> use_tfidf = True, tfidf_entropy = zero_tfidf \<rparr>"

text \<open>A fresh store with the default arguments of the constructor.\<close>

definition fresh_rag :: RAGManager where
  "fresh_rag = RAGManager_init echo_llm length_embedding plain_template 1 True 0.7"

text \<open>
  An engine with the default configuration (batch size 512, entropy threshold 3.0,
  FAISS on) and the repository's \<open>SimpleTokenizer\<close>.
\<close>

definition default_engine :: "char KimiEngine" where
  "default_engine =
     \<lparr> tokenizer = SimpleTokenizer,
       processor = TextProcessor_init 512 EntropyEvaluator_init,
       config_entropy_threshold = Some 3.0,
       llm_interface = echo_llm,
       rag_embedding_model = length_embedding,
       rag_prompt_template = plain_template,
       rag_vector_dimension = 1,
       rag_use_faiss = True \<rparr>"

section \<open>The entropy measures\<close>

lemma word_entropy_single_a: "calculate_word_entropy ''aaaaaaaaaa'' = 0"
  by (simp add: calculate_word_entropy_def py_split_def is_space_def lower_def lower_char_def
        Counter_def entropy_loop_def)

lemma word_entropy_single_b: "calculate_word_entropy ''abcdefghij'' = 0"
  by (simp add: calculate_word_entropy_def py_split_def is_space_def lower_def lower_char_def
        Counter_def entropy_loop_def)

text \<open>
  C8, as claimed: \<open>word_entropy("aaaaaaaaaa")\<close> is strictly smaller than
  \<open>word_entropy("abcdefghij")\<close>. The measure counts white-space separated words, and
  each of the two strings is one word, so the claim fails.
\<close>

theorem word_entropy_not_smaller:
  "\<not> calculate_word_entropy ''aaaaaaaaaa'' < calculate_word_entropy ''abcdefghij''"
  by (simp add: word_entropy_single_a word_entropy_single_b)

text \<open>
  C8, amended: \<open>word_entropy("aaaaaaaaaa")\<close> equals \<open>word_entropy("abcdefghij")\<close>; both
  are 0, the entropy of a text of one word.
\<close>

theorem word_entropy_equal:
  "calculate_word_entropy ''aaaaaaaaaa'' = calculate_word_entropy ''abcdefghij''
   \<and> calculate_word_entropy ''abcdefghij'' = 0"
  by (simp add: word_entropy_single_a word_entropy_single_b)

text \<open>
  On the empty text the word, n-gram and structural measures are 0, and the semantic
  measure of an empty list of texts is 0.
\<close>

lemma entropy_empty_text:
  "calculate_word_entropy [] = 0"
  "calculate_ngram_entropy [] 2 = 0"
  "calculate_structural_entropy [] = 0"
  "calculate_semantic_entropy ev [] = Inr 0"
  by (simp_all add: calculate_word_entropy_def calculate_ngram_entropy_def
        calculate_structural_entropy_def calculate_semantic_entropy_def py_split_def
        py_split_on_def py_strip_def lower_def Counter_def entropy_loop_def)

lemma semantic_entropy_empty_text:
  "calculate_semantic_entropy (ev \<lparr> use_tfidf := True \<rparr>) [[]] = Inl ValueError"
  by (simp add: calculate_semantic_entropy_def vocabulary_empty_def sk_tokens_def lower_def)

text \<open>
  C6. The claim: for the empty text each entropy measure (word, n-gram, semantic,
  structural) returns 0 rather than failing, and semantic entropy with an empty corpus
  returns 0. On the code, \<open>evaluate_text\<close> always hands the semantic measure the list
  \<open>[text] + corpus\<close>, which is never empty, so its guard for an empty list cannot
  fire; for the empty text and an empty corpus the TF-IDF step has no vocabulary and
  the call raises \<open>ValueError\<close>, for every evaluator with TF-IDF switched on (the
  default).
\<close>

theorem evaluate_text_empty_raises:
  "evaluate_text (ev \<lparr> use_tfidf := True \<rparr>) [] None None = Inl ValueError"
  by (simp add: evaluate_text_def semantic_entropy_empty_text)

text \<open>
  C7, as claimed: with a weights dictionary that gives only some of the four keys,
  \<open>evaluate_text\<close> succeeds and takes the defaults for the others. With the dictionary
  \<open>{'word': 1}\<close> it raises \<open>KeyError\<close>.
\<close>

theorem evaluate_text_partial_weights:
  "evaluate_text EntropyEvaluator_init ''hello world'' None (Some [''word'' \<mapsto> 1])
     = Inl KeyError"
  by (simp add: evaluate_text_def calculate_semantic_entropy_def EntropyEvaluator_init_def
        vocabulary_empty_def sk_tokens_def lower_def lower_char_def is_word_char_def
        subscript_def)

text \<open>
  A dictionary that is not empty and omits one of the four keys makes \<open>evaluate_text\<close>
  raise \<open>KeyError\<close>, whatever the text.
\<close>

lemma evaluate_text_missing_key:
  assumes sem: "calculate_semantic_entropy ev
                  ([text] @ (case corpus of None \<Rightarrow> [] | Some ts \<Rightarrow> ts)) = Inr s"
    and "w \<noteq> Map.empty"
    and "w ''word'' = None \<or> w ''ngram'' = None \<or> w ''semantic'' = None
           \<or> w ''structural'' = None"
  shows "evaluate_text ev text corpus (Some w) = Inl KeyError"
  using assms
  by (auto simp: evaluate_text_def subscript_def Let_def split: option.splits sum.splits)

text \<open>
  C7, amended: for every text on which the semantic measure returns a value \<open>s\<close>, and
  every weights dictionary that is absent, empty or gives all four keys,
  \<open>evaluate_text\<close> succeeds and computes the weighted sum, with the defaults 0.3, 0.2,
  0.3, 0.2 when the weights are absent or empty and with the caller's four values
  otherwise.
\<close>

theorem evaluate_text_weights:
  assumes sem: "calculate_semantic_entropy ev
                  ([text] @ (case corpus of None \<Rightarrow> [] | Some ts \<Rightarrow> ts)) = Inr s"
  shows "(weights = None \<or> weights = Some Map.empty \<longrightarrow>
            map_sum id weighted_entropy (evaluate_text ev text corpus weights)
              = Inr (0.3 * calculate_word_entropy text + 0.2 * calculate_ngram_entropy text 2
                     + 0.3 * s + 0.2 * calculate_structural_entropy text))
       \<and> (weights = Some w \<and> w ''word'' = Some a \<and> w ''ngram'' = Some b
            \<and> w ''semantic'' = Some c \<and> w ''structural'' = Some d \<longrightarrow>
            map_sum id weighted_entropy (evaluate_text ev text corpus weights)
              = Inr (a * calculate_word_entropy text + b * calculate_ngram_entropy text 2
                     + c * s + d * calculate_structural_entropy text))"
proof (intro conjI impI)
  assume "weights = None \<or> weights = Some Map.empty"
  then show "map_sum id weighted_entropy (evaluate_text ev text corpus weights)
              = Inr (0.3 * calculate_word_entropy text + 0.2 * calculate_ngram_entropy text 2
                     + 0.3 * s + 0.2 * calculate_structural_entropy text)"
    using sem by (auto simp: evaluate_text_def default_weights_def subscript_def Let_def)
next
  assume h: "weights = Some w \<and> w ''word'' = Some a \<and> w ''ngram'' = Some b
            \<and> w ''semantic'' = Some c \<and> w ''structural'' = Some d"
  then have "w \<noteq> Map.empty" by auto
  with h show "map_sum id weighted_entropy (evaluate_text ev text corpus weights)
              = Inr (a * calculate_word_entropy text + b * calculate_ngram_entropy text 2
                     + c * s + d * calculate_structural_entropy text)"
    using sem by (simp add: evaluate_text_def subscript_def Let_def)
qed

lemma sem_hello:
  "calculate_semantic_entropy EntropyEvaluator_init
     ([''hello world''] @ (case None of None \<Rightarrow> [] | Some ts \<Rightarrow> ts)) = Inr 0"
  by (simp add: calculate_semantic_entropy_def EntropyEvaluator_init_def zero_tfidf_def
        vocabulary_empty_def sk_tokens_def lower_def lower_char_def is_word_char_def)

text \<open>
  The amended statement at explicit inputs: the text \<open>hello world\<close> with no corpus,
  first without weights, then with all four weights.
\<close>

theorem evaluate_text_weights_witness:
  "calculate_semantic_entropy EntropyEvaluator_init
     ([''hello world''] @ (case None of None \<Rightarrow> [] | Some ts \<Rightarrow> ts)) = Inr 0
   \<and> map_sum id weighted_entropy (evaluate_text EntropyEvaluator_init ''hello world'' None None)
       = Inr (0.3 * calculate_word_entropy ''hello world''
              + 0.2 * calculate_ngram_entropy ''hello world'' 2
              + 0.3 * 0 + 0.2 * calculate_structural_entropy ''hello world'')
   \<and> map_sum id weighted_entropy
         (evaluate_text EntropyEvaluator_init ''hello world'' None
            (Some [''word'' \<mapsto> 1, ''ngram'' \<mapsto> 2, ''semantic'' \<mapsto> 3, ''structural'' \<mapsto> 4]))
       = Inr (1 * calculate_word_entropy ''hello world''
              + 2 * calculate_ngram_entropy ''hello world'' 2
              + 3 * 0 + 4 * calculate_structural_entropy ''hello world'')"
proof (intro conjI)
  show "calculate_semantic_entropy EntropyEvaluator_init
     ([''hello world''] @ (case None of None \<Rightarrow> [] | Some ts \<Rightarrow> ts)) = Inr 0"
    by (rule sem_hello)
  show "map_sum id weighted_entropy (evaluate_text EntropyEvaluator_init ''hello world'' None None)
       = Inr (0.3 * calculate_word_entropy ''hello world''
              + 0.2 * calculate_ngram_entropy ''hello world'' 2
              + 0.3 * 0 + 0.2 * calculate_structural_entropy ''hello world'')"
    using evaluate_text_weights [OF sem_hello, of None] by simp
  show "map_sum id weighted_entropy
         (evaluate_text EntropyEvaluator_init ''hello world'' None
            (Some [''word'' \<mapsto> 1, ''ngram'' \<mapsto> 2, ''semantic'' \<mapsto> 3, ''structural'' \<mapsto> 4]))
       = Inr (1 * calculate_word_entropy ''hello world''
              + 2 * calculate_ngram_entropy ''hello world'' 2
              + 3 * 0 + 4 * calculate_structural_entropy ''hello world'')"
    using evaluate_text_weights [OF sem_hello,
            of "Some [''word'' \<mapsto> 1, ''ngram'' \<mapsto> 2, ''semantic'' \<mapsto> 3, ''structural'' \<mapsto> 4]"
               "[''word'' \<mapsto> 1, ''ngram'' \<mapsto> 2, ''semantic'' \<mapsto> 3, ''structural'' \<mapsto> 4]"
               1 2 3 4]
    by simp
qed

section \<open>Classification\<close>

lemma batch_entropies_length:
  "batch_entropies p ctx batches = Inr entropies \<Longrightarrow> length entropies = length batches"
  by (induction batches arbitrary: entropies) (auto split: sum.splits)

lemma batch_entropies_returns:
  "\<forall>b \<in> set batches. \<exists>r. calculate_entropy p b ctx = Inr r
     \<Longrightarrow> \<exists>entropies. batch_entropies p ctx batches = Inr entropies"
  by (induction batches) (auto split: sum.splits)

lemma classify_loop_length:
  "classify_loop thr zs u l = (u', l')
     \<Longrightarrow> length u' + length l' = length u + length l + length zs"
  by (induction thr zs u l rule: classify_loop.induct) (auto split: if_splits)

lemma classify_loop_mset:
  "classify_loop thr zs u l = (u', l')
     \<Longrightarrow> mset u' + mset l' = mset u + mset l + mset (map fst zs)"
  by (induction thr zs u l rule: classify_loop.induct) (auto split: if_splits)

text \<open>
  The part of the partition property that the code keeps: whenever the entropy
  evaluation of every chunk returns, \<open>classify_by_entropy\<close> returns two lists whose
  lengths sum to the length of the input and which together, as multisets, are the
  input. The evaluation of the chunks is the only step of the function that can
  raise.
\<close>

lemma classify_partition:
  assumes ok: "\<forall>b \<in> set batches.
                 \<exists>r. calculate_entropy p b (if context_aware then Some batches else None) = Inr r"
  shows "\<exists>useful less_useful.
           classify_by_entropy p batches threshold context_aware = Inr (useful, less_useful)
           \<and> length useful + length less_useful = length batches
           \<and> mset useful + mset less_useful = mset batches"
proof -
  let ?ctx = "if context_aware then Some batches else None"
  let ?thr = "case threshold of None \<Rightarrow> entropy_threshold p | Some t \<Rightarrow> t"
  from batch_entropies_returns [OF ok]
  obtain entropies where es: "batch_entropies p ?ctx batches = Inr entropies" by blast
  then have len: "length entropies = length batches" by (rule batch_entropies_length)
  obtain u l where ul: "classify_loop ?thr (zip batches entropies) [] [] = (u, l)"
    by (cases "classify_loop ?thr (zip batches entropies) [] []") auto
  have "classify_by_entropy p batches threshold context_aware = Inr (u, l)"
    using es ul by (simp add: classify_by_entropy_def)
  moreover have "length u + length l = length batches"
    using classify_loop_length [OF ul] len by simp
  moreover have "mset u + mset l = mset batches"
    using classify_loop_mset [OF ul] len by simp
  ultimately show ?thesis by blast
qed

text \<open>
  The two chunks \<open>aaaaaaaaaa\<close> and \<open>abcdefghij\<close> score 0 on every measure, so with the
  threshold 2 both are classified as less useful.
\<close>

lemma calc_entropy_a:
  "calculate_entropy (TextProcessor_init 10 EntropyEvaluator_init) ''aaaaaaaaaa''
     (Some [''aaaaaaaaaa'', ''abcdefghij''])
   = Inr \<lparr> word_entropy = 0, ngram_entropy = 0, semantic_entropy = 0,
           structural_entropy = 0, weighted_entropy = 0 \<rparr>"
  by (simp add: calculate_entropy_def TextProcessor_init_def evaluate_text_def
        EntropyEvaluator_init_def zero_tfidf_def calculate_semantic_entropy_def
        vocabulary_empty_def sk_tokens_def lower_def lower_char_def is_word_char_def
        calculate_word_entropy_def calculate_ngram_entropy_def calculate_structural_entropy_def
        py_split_def py_split_on_def py_strip_def is_space_def Counter_def entropy_loop_def
        default_weights_def subscript_def py_slice_def slice_bound_def)

lemma calc_entropy_b:
  "calculate_entropy (TextProcessor_init 10 EntropyEvaluator_init) ''abcdefghij''
     (Some [''aaaaaaaaaa'', ''abcdefghij''])
   = Inr \<lparr> word_entropy = 0, ngram_entropy = 0, semantic_entropy = 0,
           structural_entropy = 0, weighted_entropy = 0 \<rparr>"
  by (simp add: calculate_entropy_def TextProcessor_init_def evaluate_text_def
        EntropyEvaluator_init_def zero_tfidf_def calculate_semantic_entropy_def
        vocabulary_empty_def sk_tokens_def lower_def lower_char_def is_word_char_def
        calculate_word_entropy_def calculate_ngram_entropy_def calculate_structural_entropy_def
        py_split_def py_split_on_def py_strip_def is_space_def Counter_def entropy_loop_def
        default_weights_def subscript_def py_slice_def slice_bound_def)

lemma classify_test_input:
  "classify_by_entropy (TextProcessor_init 10 EntropyEvaluator_init)
     [''aaaaaaaaaa'', ''abcdefghij''] (Some 2) True
   = Inr ([], [''aaaaaaaaaa'', ''abcdefghij''])"
proof -
  have sel: "select_entropy (TextProcessor_init 10 EntropyEvaluator_init)
               \<lparr> word_entropy = 0, ngram_entropy = 0, semantic_entropy = 0,
                 structural_entropy = 0, weighted_entropy = 0 \<rparr> = 0"
    by (simp add: select_entropy_def)
  show ?thesis
    by (simp add: classify_by_entropy_def Let_def calc_entropy_a calc_entropy_b sel)
qed

text \<open>
  The partition property at the two chunks of the repository's own test of the
  classifier, with the threshold 2.
\<close>

lemma classify_partition_at_test_input:
  "(\<exists>r. calculate_entropy (TextProcessor_init 10 EntropyEvaluator_init) ''aaaaaaaaaa''
          (Some [''aaaaaaaaaa'', ''abcdefghij'']) = Inr r)
   \<and> (\<exists>r. calculate_entropy (TextProcessor_init 10 EntropyEvaluator_init) ''abcdefghij''
          (Some [''aaaaaaaaaa'', ''abcdefghij'']) = Inr r)
   \<and> (\<exists>useful less_useful.
         classify_by_entropy (TextProcessor_init 10 EntropyEvaluator_init)
           [''aaaaaaaaaa'', ''abcdefghij''] (Some 2) True = Inr (useful, less_useful)
         \<and> length useful + length less_useful = length [''aaaaaaaaaa'', ''abcdefghij'']
         \<and> mset useful + mset less_useful = mset [''aaaaaaaaaa'', ''abcdefghij''])"
proof -
  have h: "\<forall>b \<in> set [''aaaaaaaaaa'', ''abcdefghij''].
      \<exists>r. calculate_entropy (TextProcessor_init 10 EntropyEvaluator_init) b
             (if True then Some [''aaaaaaaaaa'', ''abcdefghij''] else None) = Inr r"
    by (simp add: calc_entropy_a calc_entropy_b)
  from classify_partition [OF h, of "Some 2"]
  show ?thesis by (simp add: calc_entropy_a calc_entropy_b)
qed

text \<open>
  C4. The claim: for every list of chunks and every threshold, \<open>classify_by_entropy\<close>
  returns two lists whose lengths sum to the length of the input list, each input chunk
  being placed in exactly one of the two. On the code, the chunk list \<open>['a', 'b']\<close>
  returns no lists at all: no chunk holds a token of two or more word characters, the
  TF-IDF step of the semantic measure has no vocabulary, and the \<open>ValueError\<close> it
  raises leaves \<open>classify_by_entropy\<close> before any chunk is placed. This holds for every
  threshold, with and without context, and for every evaluator with TF-IDF on (the
  processor's default).
\<close>

theorem classify_raises_without_tokens:
  "classify_by_entropy (p \<lparr> entropy_evaluator := ev \<lparr> use_tfidf := True \<rparr> \<rparr>)
     [''a'', ''b''] threshold context_aware = Inl ValueError"
  by (cases context_aware)
     (simp_all add: classify_by_entropy_def calculate_entropy_def evaluate_text_def
        calculate_semantic_entropy_def vocabulary_empty_def sk_tokens_def lower_def
        lower_char_def is_word_char_def Let_def)

section \<open>The compression loop does not return\<close>

text \<open>
  In \<open>split_into_batches\<close> the next window starts at \<open>max(0, end_idx - overlap_size)\<close>,
  and \<open>end_idx\<close> never exceeds \<open>len(words)\<close>. With a positive overlap the start
  index therefore stays below \<open>len(words)\<close> for ever: once the loop is entered it is
  never left.
\<close>

lemma find_Some_mem: "find P xs = Some x \<Longrightarrow> x \<in> set xs"
  by (induction xs) (auto split: if_splits)

lemma end_idx_le:
  "(case find P (rev [s + 1 ..< nat limit]) of Some i \<Rightarrow> int i + 1 | None \<Rightarrow> limit) \<le> limit"
proof (cases "find P (rev [s + 1 ..< nat limit])")
  case None then show ?thesis by simp
next
  case (Some i)
  then have "i \<in> set (rev [s + 1 ..< nat limit])" by (rule find_Some_mem)
  then show ?thesis using Some by auto
qed

lemma split_loop_Some_D:
  assumes ret: "split_loop bsize overlap words ends start_idx batches = Some y"
  shows "\<not> (0 < overlap \<and> start_idx < length words)"
proof (rule split_loop.raw_induct
         [where P = "\<lambda>bs ov ws es s acc res. \<not> (0 < ov \<and> s < length ws)", OF _ ret])
  fix loop bs ov ws es s acc res
  assume IH: "\<And>bs ov ws es s acc res.
                 loop bs ov ws es s acc = Some res \<Longrightarrow> \<not> (0 < ov \<and> s < length ws)"
    and step: "(if s < length ws then
        let limit = min (int s + bs) (int (length ws));
            end_idx = (case find (\<lambda>i. i < length es \<and> es ! i)
                                 (rev [s + 1 ..< nat limit]) of
                         Some i \<Rightarrow> int i + 1
                       | None \<Rightarrow> limit)
        in loop bs ov ws es
             (nat (max 0 (end_idx - ov)))
             (acc @ [py_join '' '' (py_slice ws (int s) end_idx)])
      else Some acc) = Some res"
  show "\<not> (0 < ov \<and> s < length ws)"
  proof
    assume h: "0 < ov \<and> s < length ws"
    let ?limit = "min (int s + bs) (int (length ws))"
    let ?end_idx = "(case find (\<lambda>i. i < length es \<and> es ! i)
                                 (rev [s + 1 ..< nat ?limit]) of
                         Some i \<Rightarrow> int i + 1
                       | None \<Rightarrow> ?limit)"
    have "?end_idx \<le> ?limit" by (rule end_idx_le)
    then have "?end_idx \<le> int (length ws)" by linarith
    then have lt: "nat (max 0 (?end_idx - ov)) < length ws" using h by linarith
    from step h have "loop bs ov ws es (nat (max 0 (?end_idx - ov)))
             (acc @ [py_join '' '' (py_slice ws (int s) ?end_idx)]) = Some res"
      by (simp add: Let_def)
    from IH[OF this] h lt show False by blast
  qed
qed

lemma split_loop_diverges:
  "0 < overlap \<Longrightarrow> start_idx < length words
     \<Longrightarrow> split_loop bsize overlap words ends start_idx batches = None"
  using split_loop_Some_D[of bsize overlap words ends start_idx batches]
  by (cases "split_loop bsize overlap words ends start_idx batches") auto

lemma split_into_batches_diverges:
  "0 < overlap_size p \<Longrightarrow> py_split text \<noteq> [] \<Longrightarrow> split_into_batches p text True = None"
  by (simp add: split_into_batches_def Let_def split_loop_diverges)

lemma compress_diverges:
  "target < int (count_tokens (tokenizer eng) text) \<Longrightarrow> 0 < overlap_size (processor eng)
    \<Longrightarrow> py_split text \<noteq> [] \<Longrightarrow> recursive_rag_compress eng text target = None"
  by (subst recursive_rag_compress.simps) (simp add: Let_def split_into_batches_diverges)

text \<open>
  The two ways in which the call does end: a text within the budget is returned
  unchanged; a text over the budget without any word gets through the split and
  stops at the missing attribute \<open>rag_store\<close>.
\<close>

lemma compress_within_limit:
  "int (count_tokens (tokenizer eng) text) \<le> target
     \<Longrightarrow> recursive_rag_compress eng text target = Some (Inr text)"
  by (subst recursive_rag_compress.simps) (simp add: Let_def)

lemma compress_attribute_error:
  "target < int (count_tokens (tokenizer eng) text) \<Longrightarrow> py_split text = []
    \<Longrightarrow> recursive_rag_compress eng text target = Some (Inl AttributeError)"
  by (subst recursive_rag_compress.simps)
     (simp add: Let_def split_into_batches_def split_loop.simps classify_by_entropy_def
        batch_store_def rag_store_keys_def)

text \<open>
  C1. The claim: for every finite text and every token budget, the compressor's
  \<open>fit\<close> operation (\<open>_recursive_rag_compress\<close>) terminates within a bounded number
  of iterations and returns a string of at most \<open>target_tokens\<close> tokens. On the code,
  the engine with the default configuration, given the two-token text \<open>ab\<close> and the
  budget 1, never returns: its first call of \<open>split_into_batches\<close> does not terminate.
\<close>

theorem compress_never_returns:
  "recursive_rag_compress default_engine ''ab'' 1 = None"
proof (rule compress_diverges)
  show "1 < int (count_tokens (tokenizer default_engine) ''ab'')"
    by (simp add: default_engine_def count_tokens_def SimpleTokenizer_def)
  show "0 < overlap_size (processor default_engine)"
    by (simp add: default_engine_def TextProcessor_init_def)
  show "py_split ''ab'' \<noteq> []"
    by (simp add: py_split_def is_space_def)
qed

section \<open>The memory store\<close>

text \<open>
  C10. Calling \<open>batch_store\<close> with an empty list of texts returns an empty list and
  leaves the manager (the summary list, the embedding list, the vector index and
  everything else) unchanged.
\<close>

theorem batch_store_empty: "batch_store r [] = ([], r)"
  by (simp add: batch_store_def)

text \<open>A summary that is already stored is returned and nothing changes.\<close>

lemma store_text_duplicate:
  "summarize_text r text \<in> set (texts r) \<Longrightarrow> store_text r text = (summarize_text r text, r)"
  by (simp add: store_text_def)

text \<open>
  C3. The claim: a text whose summary is not stored yet appends exactly one record,
  that is, one entry of the summary list, one embedding and one index insertion. On
  the code, a fresh store with the index in use (the default) holds the summary twice
  after its first \<open>store_text\<close>, with one embedding: the summary is appended before
  the embedding is computed and once more before the vector is added to the index.
\<close>

theorem store_text_appends_twice:
  "texts (snd (store_text (RAGManager_init llm embedder template d True thr) text))
     = [py_strip (llm (template text)), py_strip (llm (template text))]
   \<and> length (embeddings (snd (store_text (RAGManager_init llm embedder template d True thr) text))) = 1"
  by (simp add: store_text_def RAGManager_init_def summarize_text_def Let_def IndexFlatL2_def
        split: sum.splits)

lemma stored_abc:
  "store_text fresh_rag ''abc'' =
     (''abc'', fresh_rag \<lparr> embeddings := [[3]], texts := [''abc'', ''abc''],
                           index := Some \<lparr> idx_dim = 1, idx_vecs = [[3]] \<rparr> \<rparr>)"
  by (simp add: store_text_def fresh_rag_def RAGManager_init_def summarize_text_def Let_def
        IndexFlatL2_def echo_llm_def plain_template_def length_embedding_def py_strip_def
        is_space_def faiss_add_def)

text \<open>On a store without summaries \<open>retrieve\<close> returns the empty list.\<close>

lemma retrieve_empty_store: "texts r = [] \<Longrightarrow> retrieve r query top_k = Inr []"
  by (simp add: retrieve_def)

text \<open>
  C5. The claim: \<open>retrieve\<close> returns at most \<open>min(top_k, number of stored records)\<close>
  results. On the code, after one \<open>store_text\<close> on a fresh store (one record: one
  embedding, one vector in the index) \<open>retrieve\<close> with \<open>top_k = 3\<close> returns two
  results: it asks the index for \<open>min(top_k, len(texts))\<close> neighbours, the summary
  list has two entries, and the label \<open>-1\<close> that fills the missing neighbour reads the
  last summary.
\<close>

theorem retrieve_more_than_stored:
  "length (embeddings (snd (store_text fresh_rag ''abc''))) = 1
   \<and> map_option (\<lambda>idx. length (idx_vecs idx)) (index (snd (store_text fresh_rag ''abc'')))
       = Some 1
   \<and> retrieve (snd (store_text fresh_rag ''abc'')) ''abc'' 3 = Inr [''abc'', ''abc'']"
  unfolding stored_abc snd_conv
  by (simp add: retrieve_def fresh_rag_def RAGManager_init_def length_embedding_def
        faiss_search_def l2_sq_def py_index_def Let_def)

text \<open>
  C2. The claim: \<open>retrieve\<close> turns each distance into the similarity
  \<open>1 / (1 + distance)\<close> and drops every result whose similarity is below the
  similarity threshold. On the code, the only stored record is at squared distance
  100 from the query, its similarity \<open>1/101\<close> is below the threshold 0.7 of the
  store, and \<open>retrieve\<close> returns it all the same: it never looks at the distances.
\<close>

theorem retrieve_ignores_threshold:
  "retrieve (snd (store_text fresh_rag ''abc'')) ''abcdefghijklm'' 1 = Inr [''abc'']
   \<and> 1 / (1 + l2_sq (length_embedding ''abcdefghijklm'') (length_embedding ''abc''))
       < similarity_threshold (snd (store_text fresh_rag ''abc''))"
  unfolding stored_abc snd_conv
  by (simp add: retrieve_def fresh_rag_def RAGManager_init_def length_embedding_def
        faiss_search_def l2_sq_def py_index_def Let_def)

section \<open>Context sampling\<close>

text \<open>
  C9. The claim: for every base context, list of retrieved snippets and requested count
  \<open>N\<close>, the relevance strategy returns the \<open>N\<close> pool members with the highest
  token-overlap ratio with the query, in descending order of that ratio. On the code,
  a generator as its constructor leaves it raises \<open>AttributeError\<close> for every pool and
  every count, because the query is read from an attribute that is never set.
\<close>

theorem relevance_sampling_raises:
  "relevance_based_sampling FrameworkGenerator_init useful_context rag_context num_samples
     = Inl AttributeError"
  by (simp add: relevance_based_sampling_def FrameworkGenerator_init_def)

end
